theory Spec2Isabelle
  imports Main "HOL-Library.AList"
begin

section \<open>Spark driver integration: values, exceptions, dictionaries\<close>

text \<open>
  The module \<^verbatim>\<open>sentry_sdk/integrations/spark/spark_driver.py\<close> connects a Spark
  driver to the reporting client. Its functions mutate three things: the event
  dictionary handed to the event processor, the Spark context (listener bus, local
  properties) and the reporting scope (breadcrumbs, event processors). The embedding
  passes these as explicit state. A call that raises returns the state reached so far
  together with the exception.
\<close>

text \<open>
  Exceptions. \<^verbatim>\<open>Py4JJavaError\<close> is the only class the source names (it wraps an
  exception thrown inside the JVM; the payload is the Java class of that exception).
  \<^verbatim>\<open>AttributeError\<close> and \<^verbatim>\<open>KeyError\<close> are what Python raises for
  \<^verbatim>\<open>x.setdefault\<close> on a value that is no dictionary and for \<^verbatim>\<open>d[k]\<close> on a
  missing key. \<^verbatim>\<open>OtherException\<close> stands for every other exception class, for
  instance a lost connection to the gateway.
\<close>

datatype exn =
    AttributeError
  | KeyError
  | Py4JJavaError string
  | OtherException string

text \<open>
  Python values as far as the module handles them. A dictionary is an association
  list in insertion order; \<open>map_of\<close> is the lookup and \<open>AList.update\<close> is
  \<^verbatim>\<open>d[k] = v\<close> (replace in place, or append a new key).
\<close>

datatype pyval =
    PNone
  | PInt int
  | PStr string
  | PDict "(string \<times> pyval) list"

type_synonym dict = "(string \<times> pyval) list"

text \<open>\<^verbatim>\<open>d.setdefault(k, v)\<close>: the dictionary afterwards. A present key keeps its value
  (also when that value is \<^verbatim>\<open>None\<close>); an absent one is added.\<close>

definition dict_setdefault :: "string \<Rightarrow> pyval \<Rightarrow> dict \<Rightarrow> dict" where
  "dict_setdefault k v d = (case map_of d k of Some _ \<Rightarrow> d | None \<Rightarrow> d @ [(k, v)])"

text \<open>The state after a statement, and the exception it raised, if any.\<close>

type_synonym 's outcome = "'s \<times> exn option"

definition and_then :: "'s outcome \<Rightarrow> ('s \<Rightarrow> 's outcome) \<Rightarrow> 's outcome" where
  "and_then r f = (case r of (s, None) \<Rightarrow> f s | (s, Some e) \<Rightarrow> (s, Some e))"

subsection \<open>Formatting an integer\<close>

text \<open>\<^verbatim>\<open>"Job {} Ended".format(n)\<close> inserts \<^verbatim>\<open>str(n)\<close>, the decimal digits of \<open>n\<close>
  with a leading minus sign for a negative number.\<close>

definition digit_char :: "nat \<Rightarrow> char" where
  "digit_char d = ''0123456789'' ! d"

function str_nat :: "nat \<Rightarrow> string" where
  "str_nat n = (if n < 10 then [digit_char n] else str_nat (n div 10) @ [digit_char (n mod 10)])"
  by pat_completeness auto
termination
  by (relation "measure id") auto

declare str_nat.simps [simp del]

definition str_int :: "int \<Rightarrow> string" where
  "str_int i = (if i < 0 then CHR ''-'' # str_nat (nat (- i)) else str_nat (nat i))"

section \<open>The driver's state\<close>

text \<open>
  A Spark context as this module sees it: its identity and the outcome of every read
  or call the module makes on it. A read that crosses into the JVM can raise, so each
  is a value or an exception. \<open>addSparkListener\<close> is the outcome of
  \<^verbatim>\<open>sc._jsc.sc().addSparkListener(listener)\<close>: \<open>None\<close> when the call returns.
\<close>

record spark_context =
  sc_id :: nat
  sparkUser :: "exn + pyval"
  conf_get :: "string \<Rightarrow> exn + pyval"
  version :: "exn + pyval"
  appName :: "exn + pyval"
  applicationId :: "exn + pyval"
  master :: "exn + pyval"
  sparkHome :: "exn + pyval"
  uiWebUrl :: "exn + pyval"
  addSparkListener :: "exn option"

record breadcrumb =
  level :: string
  message :: string
  data :: "dict option"

datatype listener = SentryListener

text \<open>
  The process-wide state: \<^verbatim>\<open>SparkContext._active_spark_context\<close>, whether the client
  has the Spark integration, each context's local properties and registered listeners,
  whether the callback server runs, the scope's event processors (each closure is
  identified by the context it captured), the breadcrumbs, and how many times
  \<^verbatim>\<open>SparkContext._do_init\<close> has been wrapped.
\<close>

record world =
  active_spark_context :: "spark_context option"
  integration_enabled :: bool
  local_properties :: "nat \<Rightarrow> dict"
  listeners :: "nat \<Rightarrow> listener list"
  callback_server_started :: bool
  event_processors :: "spark_context list"
  breadcrumbs :: "breadcrumb list"
  do_init_patches :: nat

text \<open>Modelled from the spec: \<^verbatim>\<open>sentry_sdk.add_breadcrumb\<close> belongs to the reporting
  client; breadcrumbs are append-only and ordered by arrival, so the call appends the
  record built from its keyword arguments.\<close>

definition add_breadcrumb :: "string \<Rightarrow> string \<Rightarrow> dict option \<Rightarrow> world \<Rightarrow> world" where
  "add_breadcrumb lv msg d w =
     w\<lparr>breadcrumbs := breadcrumbs w @ [\<lparr>level = lv, message = msg, data = d\<rparr>]\<rparr>"

text \<open>\<^verbatim>\<open>spark_context.setLocalProperty(key, value)\<close> on the context \<open>sc\<close>.\<close>

definition setLocalProperty :: "spark_context \<Rightarrow> string \<Rightarrow> pyval \<Rightarrow> world \<Rightarrow> world" where
  "setLocalProperty sc k v w =
     w\<lparr>local_properties :=
         (local_properties w)(sc_id sc := AList.update k v (local_properties w (sc_id sc)))\<rparr>"

section \<open>Property propagation\<close>

text \<open>\<^verbatim>\<open>_set_app_properties\<close>: reads the active context; the argument of each
  \<^verbatim>\<open>setLocalProperty\<close> call is read before the call is made.\<close>

definition set_app_properties :: "world \<Rightarrow> world outcome" where
  "set_app_properties w =
     (case active_spark_context w of
        None \<Rightarrow> (w, None)
      | Some spark_ctx \<Rightarrow>
          (case appName spark_ctx of
             Inl e \<Rightarrow> (w, Some e)
           | Inr n \<Rightarrow>
               (let w1 = setLocalProperty spark_ctx ''sentry_app_name'' n w in
                case applicationId spark_ctx of
                  Inl e \<Rightarrow> (w1, Some e)
                | Inr i \<Rightarrow> (setLocalProperty spark_ctx ''sentry_application_id'' i w1, None))))"

section \<open>The listener\<close>

record job_start =
  js_jobId :: int

record job_end =
  jobId :: int
  jobResult :: string

text \<open>A stage's description. \<open>failureReason\<close> is the outcome of
  \<^verbatim>\<open>stage_info.failureReason().get()\<close>, the one read of the handlers that the source
  guards; the other accessors return the fields of the delivered event.\<close>

record stage_info =
  stageId :: int
  attemptId :: int
  name :: string
  failureReason :: "exn + pyval"

record stage_event =
  stageInfo :: stage_info

definition onJobStart :: "job_start \<Rightarrow> world \<Rightarrow> world outcome" where
  "onJobStart jobStart w =
     (let message = ''Job '' @ str_int (js_jobId jobStart) @ '' Started''
      in set_app_properties (add_breadcrumb ''info'' message None w))"

definition onJobEnd :: "job_end \<Rightarrow> world \<Rightarrow> world outcome" where
  "onJobEnd jobEnd w =
     (let d = [(''result'', PStr (jobResult jobEnd))] in
      if jobResult jobEnd = ''JobSucceeded''
      then (add_breadcrumb ''info'' (''Job '' @ str_int (jobId jobEnd) @ '' Ended'') (Some d) w, None)
      else (add_breadcrumb ''warning'' (''Job '' @ str_int (jobId jobEnd) @ '' Failed'') (Some d) w, None))"

definition onStageSubmitted :: "stage_event \<Rightarrow> world \<Rightarrow> world outcome" where
  "onStageSubmitted stageSubmitted w =
     (let stage_info = stageInfo stageSubmitted;
          message = ''Stage '' @ str_int (stageId stage_info) @ '' Submitted'';
          d = [(''attemptId'', PInt (attemptId stage_info)), (''name'', PStr (name stage_info))]
      in set_app_properties (add_breadcrumb ''info'' message (Some d) w))"

text \<open>\<^verbatim>\<open>onStageCompleted\<close>: the \<^verbatim>\<open>try\<close> block stores the reason and chooses the
  warning; \<^verbatim>\<open>except Py4JJavaError\<close> chooses the completed message for every exception
  of that class and lets any other exception leave the handler before a breadcrumb
  is added.\<close>

definition onStageCompleted :: "stage_event \<Rightarrow> world \<Rightarrow> world outcome" where
  "onStageCompleted stageCompleted w =
     (let stage_info = stageInfo stageCompleted;
          d = [(''attemptId'', PInt (attemptId stage_info)), (''name'', PStr (name stage_info))]
      in case failureReason stage_info of
           Inr r \<Rightarrow>
             (add_breadcrumb ''warning'' (''Stage '' @ str_int (stageId stage_info) @ '' Failed'')
                (Some (AList.update ''reason'' r d)) w, None)
         | Inl (Py4JJavaError j) \<Rightarrow>
             (add_breadcrumb ''info'' (''Stage '' @ str_int (stageId stage_info) @ '' Completed'')
                (Some d) w, None)
         | Inl e \<Rightarrow> (w, Some e))"

text \<open>Modelled from the spec: the well-known empty-option signal of the failure-reason
  accessor. The source names only the Python class it catches; calling \<^verbatim>\<open>get\<close> on an
  empty Scala \<^verbatim>\<open>Option\<close> throws \<^verbatim>\<open>java.util.NoSuchElementException\<close> inside the JVM,
  which reaches Python as a \<^verbatim>\<open>Py4JJavaError\<close>.\<close>

definition empty_option_signal :: exn where
  "empty_option_signal = Py4JJavaError ''java.util.NoSuchElementException''"

section \<open>The event processor\<close>

text \<open>\<^verbatim>\<open>event.setdefault(sec, {}).setdefault(k, <read>)\<close>. Python evaluates the outer
  \<^verbatim>\<open>setdefault\<close> first (the section is added when absent), then looks up the
  method on its result (\<^verbatim>\<open>AttributeError\<close> when the stored value is no dictionary),
  then evaluates the argument (the read of the session, which may raise), then calls.
  The inner dictionary is the object stored in the event, so the event sees the change.\<close>

definition setdefault_section :: "string \<Rightarrow> string \<Rightarrow> exn + pyval \<Rightarrow> dict \<Rightarrow> dict outcome" where
  "setdefault_section sec k rd event =
     (let event1 = dict_setdefault sec (PDict []) event in
      case map_of event1 sec of
        Some (PDict d) \<Rightarrow>
          (case rd of
             Inl e \<Rightarrow> (event1, Some e)
           | Inr v \<Rightarrow> (AList.update sec (PDict (dict_setdefault k v d)) event1, None))
      | _ \<Rightarrow> (event1, Some AttributeError))"

text \<open>\<^verbatim>\<open>event[sec].setdefault(k, <read>)\<close>: \<^verbatim>\<open>KeyError\<close> when the section is missing.\<close>

definition index_setdefault :: "string \<Rightarrow> string \<Rightarrow> exn + pyval \<Rightarrow> dict \<Rightarrow> dict outcome" where
  "index_setdefault sec k rd event =
     (case map_of event sec of
        None \<Rightarrow> (event, Some KeyError)
      | Some (PDict d) \<Rightarrow>
          (case rd of
             Inl e \<Rightarrow> (event, Some e)
           | Inr v \<Rightarrow> (AList.update sec (PDict (dict_setdefault k v d)) event, None))
      | Some _ \<Rightarrow> (event, Some AttributeError))"

text \<open>The body of the \<^verbatim>\<open>with capture_internal_exceptions():\<close> block of
  \<^verbatim>\<open>process_event\<close>, statement by statement. The two early \<^verbatim>\<open>return event\<close>
  leave the event as it is.\<close>

definition process_event_body :: "world \<Rightarrow> spark_context \<Rightarrow> dict \<Rightarrow> dict outcome" where
  "process_event_body w sc event =
     (if \<not> integration_enabled w then (event, None)
      else if active_spark_context w = None then (event, None)
      else
        and_then (and_then (and_then (and_then (and_then (and_then (and_then (and_then
        (and_then (and_then
          (setdefault_section ''user'' ''id'' (sparkUser sc) event)
          (setdefault_section ''tags'' ''executor.id'' (conf_get sc ''spark.executor.id'')))
          (index_setdefault ''tags'' ''spark-submit.deployMode'' (conf_get sc ''spark.submit.deployMode'')))
          (index_setdefault ''tags'' ''driver.host'' (conf_get sc ''spark.driver.host'')))
          (index_setdefault ''tags'' ''driver.port'' (conf_get sc ''spark.driver.port'')))
          (index_setdefault ''tags'' ''spark_version'' (version sc)))
          (index_setdefault ''tags'' ''app_name'' (appName sc)))
          (index_setdefault ''tags'' ''application_id'' (applicationId sc)))
          (index_setdefault ''tags'' ''master'' (master sc)))
          (index_setdefault ''tags'' ''spark_home'' (sparkHome sc)))
          (setdefault_section ''extra'' ''web_url'' (uiWebUrl sc)))"

text \<open>Modelled from the spec: \<^verbatim>\<open>capture_internal_exceptions\<close> (of
  \<^verbatim>\<open>sentry_sdk.utils\<close>) is the context manager that catches and contains any failure
  raised inside its block; execution goes on after the block with the state reached.\<close>

definition capture_internal_exceptions :: "'s outcome \<Rightarrow> 's outcome" where
  "capture_internal_exceptions r = (fst r, None)"

text \<open>\<^verbatim>\<open>process_event(event, hint)\<close> for the closure that captured \<open>sc\<close>. The hint is
  not read. The result is an exception leaving the function, or the returned value:
  \<open>None\<close> for Python's \<^verbatim>\<open>None\<close>, \<open>Some\<close> of the event's final state otherwise.\<close>

definition process_event :: "world \<Rightarrow> spark_context \<Rightarrow> dict \<Rightarrow> exn + dict option" where
  "process_event w sc event =
     (case capture_internal_exceptions (process_event_body w sc event) of
        (event', None) \<Rightarrow> Inr (Some event')
      | (event', Some e) \<Rightarrow> Inl e)"

text \<open>Reading \<^verbatim>\<open>event[sec][k]\<close> where both levels exist.\<close>

definition lookup2 :: "dict \<Rightarrow> string \<Rightarrow> string \<Rightarrow> pyval option" where
  "lookup2 event sec k =
     (case map_of event sec of Some (PDict d) \<Rightarrow> map_of d k | _ \<Rightarrow> None)"

text \<open>The statements of the block once more, as a list in source order: whether the
  statement is of the form \<^verbatim>\<open>event.setdefault(sec, {}).setdefault(...)\<close> or
  \<^verbatim>\<open>event[sec].setdefault(...)\<close>, the section, the key, and the outcome of the
  session read. Running a prefix of the list gives the event as it is between two
  statements; \<open>process_event_body_steps\<close> below shows that running the whole list is
  the block.\<close>

type_synonym enrich_step = "bool \<times> string \<times> string \<times> (exn + pyval)"

definition enrichment_steps :: "spark_context \<Rightarrow> enrich_step list" where
  "enrichment_steps sc =
     [(True, ''user'', ''id'', sparkUser sc),
      (True, ''tags'', ''executor.id'', conf_get sc ''spark.executor.id''),
      (False, ''tags'', ''spark-submit.deployMode'', conf_get sc ''spark.submit.deployMode''),
      (False, ''tags'', ''driver.host'', conf_get sc ''spark.driver.host''),
      (False, ''tags'', ''driver.port'', conf_get sc ''spark.driver.port''),
      (False, ''tags'', ''spark_version'', version sc),
      (False, ''tags'', ''app_name'', appName sc),
      (False, ''tags'', ''application_id'', applicationId sc),
      (False, ''tags'', ''master'', master sc),
      (False, ''tags'', ''spark_home'', sparkHome sc),
      (True, ''extra'', ''web_url'', uiWebUrl sc)]"

fun run_step :: "enrich_step \<Rightarrow> dict \<Rightarrow> dict outcome" where
  "run_step (first, sec, k, rd) event =
     (if first then setdefault_section sec k rd event else index_setdefault sec k rd event)"

definition run_steps :: "enrich_step list \<Rightarrow> dict \<Rightarrow> dict outcome" where
  "run_steps steps event = foldl (\<lambda>r st. and_then r (run_step st)) (event, None) steps"

definition step_field :: "enrich_step \<Rightarrow> string \<times> string" where
  "step_field st = (fst (snd st), fst (snd (snd st)))"

section \<open>Activation and the patched initialisation\<close>

text \<open>\<^verbatim>\<open>_start_sentry_listener\<close>: start the callback server, then register a new
  \<^verbatim>\<open>SentryListener\<close> on the context's listener bus.\<close>

definition start_sentry_listener :: "spark_context \<Rightarrow> world \<Rightarrow> world outcome" where
  "start_sentry_listener sc w =
     (let w1 = w\<lparr>callback_server_started := True\<rparr> in
      case addSparkListener sc of
        Some e \<Rightarrow> (w1, Some e)
      | None \<Rightarrow>
          (w1\<lparr>listeners := (listeners w1)(sc_id sc := listeners w1 (sc_id sc) @ [SentryListener])\<rparr>,
           None))"

text \<open>\<^verbatim>\<open>_add_event_processor\<close>: the scope gets one more \<^verbatim>\<open>process_event\<close> closure.\<close>

definition add_event_processor :: "spark_context \<Rightarrow> world \<Rightarrow> world outcome" where
  "add_event_processor sc w = (w\<lparr>event_processors := event_processors w @ [sc]\<rparr>, None)"

definition activate_integration :: "spark_context \<Rightarrow> world \<Rightarrow> world outcome" where
  "activate_integration sc w =
     and_then (and_then (start_sentry_listener sc w) set_app_properties) (add_event_processor sc)"

text \<open>An initialisation routine: the state it leaves and what it raised or returned.
  The original \<^verbatim>\<open>SparkContext._do_init\<close> belongs to the engine and is a parameter.\<close>

type_synonym init_fn = "spark_context \<Rightarrow> world \<Rightarrow> world \<times> (exn + pyval)"

text \<open>Modelled from the spec: the decorator \<^verbatim>\<open>ensure_integration_enabled\<close> (of
  \<^verbatim>\<open>sentry_sdk.utils\<close>); when the integration is not enabled in the current
  configuration the wrapper passes the call through to the original.\<close>

definition ensure_integration_enabled :: "init_fn \<Rightarrow> init_fn \<Rightarrow> init_fn" where
  "ensure_integration_enabled original_function sentry_patched_function self w =
     (if integration_enabled w then sentry_patched_function self w
      else original_function self w)"

definition sentry_patched_spark_context_init :: "init_fn \<Rightarrow> init_fn" where
  "sentry_patched_spark_context_init spark_context_init self w =
     (case spark_context_init self w of
        (w1, Inl e) \<Rightarrow> (w1, Inl e)
      | (w1, Inr rv) \<Rightarrow>
          (case activate_integration self w1 of
             (w2, Some e) \<Rightarrow> (w2, Inl e)
           | (w2, None) \<Rightarrow> (w2, Inr rv)))"

text \<open>What \<^verbatim>\<open>_patch_spark_context_init\<close> stores in \<^verbatim>\<open>SparkContext._do_init\<close>.\<close>

definition patched_do_init :: "init_fn \<Rightarrow> init_fn" where
  "patched_do_init spark_context_init =
     ensure_integration_enabled spark_context_init
       (sentry_patched_spark_context_init spark_context_init)"

definition patch_spark_context_init :: "world \<Rightarrow> world outcome" where
  "patch_spark_context_init w = (w\<lparr>do_init_patches := Suc (do_init_patches w)\<rparr>, None)"

text \<open>\<^verbatim>\<open>SparkContext._do_init\<close> after \<open>n\<close> patches of the engine's routine.\<close>

fun do_init :: "nat \<Rightarrow> init_fn \<Rightarrow> init_fn" where
  "do_init 0 original = original"
| "do_init (Suc n) original = patched_do_init (do_init n original)"

definition setup_sentry_tracing :: "world \<Rightarrow> world outcome" where
  "setup_sentry_tracing w =
     and_then
       (case active_spark_context w of
          Some sc \<Rightarrow> activate_integration sc w
        | None \<Rightarrow> (w, None))
       patch_spark_context_init"

text \<open>Modelled from the spec: the engine's event bus, which calls the handler of every
  listener registered on the context, in registration order.\<close>

definition post_job_end :: "spark_context \<Rightarrow> job_end \<Rightarrow> world \<Rightarrow> world" where
  "post_job_end sc jobEnd w =
     fold (\<lambda>l w'. case l of SentryListener \<Rightarrow> fst (onJobEnd jobEnd w')) (listeners w (sc_id sc)) w"

section \<open>Concrete states and events\<close>

text \<open>A state with no session, and stage events with each kind of failure-reason read.\<close>

definition world0 :: world where
  "world0 = \<lparr>active_spark_context = None, integration_enabled = True,
     local_properties = (\<lambda>_. []), listeners = (\<lambda>_. []), callback_server_started = False,
     event_processors = [], breadcrumbs = [], do_init_patches = 0\<rparr>"

definition stage_ok :: stage_event where
  "stage_ok = \<lparr>stageInfo = \<lparr>stageId = 3, attemptId = 0, name = ''collect'',
       failureReason = Inl empty_option_signal\<rparr>\<rparr>"

definition stage_oom :: stage_event where
  "stage_oom = \<lparr>stageInfo = \<lparr>stageId = 3, attemptId = 0, name = ''collect'',
       failureReason = Inr (PStr ''OOM'')\<rparr>\<rparr>"

definition stage_java_fault :: stage_event where
  "stage_java_fault = \<lparr>stageInfo = \<lparr>stageId = 3, attemptId = 0, name = ''collect'',
       failureReason = Inl (Py4JJavaError ''java.lang.IllegalStateException'')\<rparr>\<rparr>"

definition stage_transport_fault :: stage_event where
  "stage_transport_fault = \<lparr>stageInfo = \<lparr>stageId = 3, attemptId = 0, name = ''collect'',
       failureReason = Inl (OtherException ''Py4JNetworkError'')\<rparr>\<rparr>"

text \<open>A session whose reads all succeed, one whose listener bus cannot be reached, the
  states before and after activating the first, and two initialisation routines.\<close>

definition session0 :: spark_context where
  "session0 = \<lparr>sc_id = 1, sparkUser = Inr (PStr ''alice''), conf_get = (\<lambda>k. Inr PNone),
     version = Inr (PStr ''3.5.0''), appName = Inr (PStr ''Y''),
     applicationId = Inr (PStr ''app-1''), master = Inr (PStr ''local''),
     sparkHome = Inr PNone, uiWebUrl = Inr (PStr ''http://driver:4040''),
     addSparkListener = None\<rparr>"

definition world1 :: world where
  "world1 = world0\<lparr>active_spark_context := Some session0\<rparr>"

definition world_once :: world where
  "world_once = world1\<lparr>
     local_properties := (\<lambda>_. [])(1 := [(''sentry_app_name'', PStr ''Y''),
                                         (''sentry_application_id'', PStr ''app-1'')]),
     listeners := (\<lambda>_. [])(1 := [SentryListener]),
     callback_server_started := True,
     event_processors := [session0]\<rparr>"

definition world_twice :: world where
  "world_twice = world_once\<lparr>
     listeners := (\<lambda>_. [])(1 := [SentryListener, SentryListener]),
     event_processors := [session0, session0]\<rparr>"

definition session_unreachable :: spark_context where
  "session_unreachable = session0\<lparr>addSparkListener := Some (OtherException ''Py4JNetworkError'')\<rparr>"

definition world_half :: world where
  "world_half = world0\<lparr>active_spark_context := Some session_unreachable,
     callback_server_started := True\<rparr>"

definition init_ok :: init_fn where
  "init_ok self w = (w\<lparr>active_spark_context := Some self\<rparr>, Inr PNone)"

definition init_fails :: init_fn where
  "init_fails self w = (w, Inl (Py4JJavaError ''org.apache.spark.SparkException''))"

text \<open>A report that already carries the tag \<^verbatim>\<open>app_name = "X"\<close>, a state in which the
  integration is disabled, a session whose \<^verbatim>\<open>version\<close> read fails, and the report
  after a full and after an interrupted enrichment.\<close>

definition event_x :: dict where
  "event_x = [(''tags'', PDict [(''app_name'', PStr ''X'')])]"

definition world_disabled :: world where
  "world_disabled = world1\<lparr>integration_enabled := False\<rparr>"

definition session_torn :: spark_context where
  "session_torn = session0\<lparr>version := Inl (Py4JJavaError ''java.lang.IllegalStateException'')\<rparr>"

definition event_partial :: dict where
  "event_partial =
     [(''tags'', PDict [(''app_name'', PStr ''X''), (''executor.id'', PNone),
                        (''spark-submit.deployMode'', PNone), (''driver.host'', PNone),
                        (''driver.port'', PNone)]),
      (''user'', PDict [(''id'', PStr ''alice'')])]"

definition event_enriched :: dict where
  "event_enriched =
     [(''tags'', PDict [(''app_name'', PStr ''X''), (''executor.id'', PNone),
                        (''spark-submit.deployMode'', PNone), (''driver.host'', PNone),
                        (''driver.port'', PNone), (''spark_version'', PStr ''3.5.0''),
                        (''application_id'', PStr ''app-1''), (''master'', PStr ''local''),
                        (''spark_home'', PNone)]),
      (''user'', PDict [(''id'', PStr ''alice'')]),
      (''extra'', PDict [(''web_url'', PStr ''http://driver:4040'')])]"

section \<open>Formatting lemmas\<close>

lemma str_nat_digit: "n < 10 \<Longrightarrow> str_nat n = [digit_char n]"
  by (subst str_nat.simps) simp

lemma str_int_7: "str_int 7 = ''7''"
  by (simp add: str_int_def str_nat_digit digit_char_def)

lemma str_int_3: "str_int 3 = ''3''"
  by (simp add: str_int_def str_nat_digit digit_char_def)

section \<open>The listener's breadcrumbs\<close>

text \<open>
  C3. For every job id and job result, \<^verbatim>\<open>onJobEnd\<close> returns normally and appends
  exactly one breadcrumb whose data is \<^verbatim>\<open>{result: jobResult}\<close>. The breadcrumb has
  level info and message "Job <id> Ended" when the result is "JobSucceeded", and level
  warning and message "Job <id> Failed" otherwise; so it is the info breadcrumb if and
  only if the result is "JobSucceeded".
\<close>

theorem onJobEnd_breadcrumb:
  "onJobEnd je w =
     (w\<lparr>breadcrumbs := breadcrumbs w @
          [if jobResult je = ''JobSucceeded''
           then \<lparr>level = ''info'', message = ''Job '' @ str_int (jobId je) @ '' Ended'',
                 data = Some [(''result'', PStr (jobResult je))]\<rparr>
           else \<lparr>level = ''warning'', message = ''Job '' @ str_int (jobId je) @ '' Failed'',
                 data = Some [(''result'', PStr (jobResult je))]\<rparr>]\<rparr>, None) \<and>
   ((level (last (breadcrumbs (fst (onJobEnd je w)))) = ''info'' \<and>
     message (last (breadcrumbs (fst (onJobEnd je w)))) = ''Job '' @ str_int (jobId je) @ '' Ended'')
      = (jobResult je = ''JobSucceeded''))"
  by (simp add: onJobEnd_def add_breadcrumb_def)

text \<open>The two examples of the specification, job 7 succeeding and job 7 failing.\<close>

theorem onJobEnd_breadcrumb_witness:
  "onJobEnd \<lparr>jobId = 7, jobResult = ''JobSucceeded''\<rparr> world0 =
     (world0\<lparr>breadcrumbs :=
        [\<lparr>level = ''info'', message = ''Job 7 Ended'',
          data = Some [(''result'', PStr ''JobSucceeded'')]\<rparr>]\<rparr>, None) \<and>
   onJobEnd \<lparr>jobId = 7, jobResult = ''JobFailed''\<rparr> world0 =
     (world0\<lparr>breadcrumbs :=
        [\<lparr>level = ''warning'', message = ''Job 7 Failed'',
          data = Some [(''result'', PStr ''JobFailed'')]\<rparr>]\<rparr>, None)"
  using onJobEnd_breadcrumb [of "\<lparr>jobId = 7, jobResult = ''JobSucceeded''\<rparr>" world0]
        onJobEnd_breadcrumb [of "\<lparr>jobId = 7, jobResult = ''JobFailed''\<rparr>" world0]
  by (simp add: str_int_7 world0_def)

text \<open>
  C4. For every stage info, \<^verbatim>\<open>onStageCompleted\<close> appends exactly one breadcrumb in each
  of the two cases of the claim. When the failure-reason read gives the empty-option
  signal, the breadcrumb has level info, message "Stage <id> Completed" and data holding
  exactly \<^verbatim>\<open>attemptId\<close> and \<^verbatim>\<open>name\<close> (no \<^verbatim>\<open>reason\<close> key). When the read gives a
  value \<open>r\<close>, the breadcrumb has level warning, message "Stage <id> Failed" and data
  \<^verbatim>\<open>{attemptId, name, reason: r}\<close>. Nothing else of the state changes.
\<close>

theorem onStageCompleted_breadcrumb:
  "(failureReason (stageInfo ev) = Inl empty_option_signal \<longrightarrow>
      onStageCompleted ev w =
        (w\<lparr>breadcrumbs := breadcrumbs w @
             [\<lparr>level = ''info'',
               message = ''Stage '' @ str_int (stageId (stageInfo ev)) @ '' Completed'',
               data = Some [(''attemptId'', PInt (attemptId (stageInfo ev))),
                            (''name'', PStr (name (stageInfo ev)))]\<rparr>]\<rparr>, None)) \<and>
   (failureReason (stageInfo ev) = Inr r \<longrightarrow>
      onStageCompleted ev w =
        (w\<lparr>breadcrumbs := breadcrumbs w @
             [\<lparr>level = ''warning'',
               message = ''Stage '' @ str_int (stageId (stageInfo ev)) @ '' Failed'',
               data = Some [(''attemptId'', PInt (attemptId (stageInfo ev))),
                            (''name'', PStr (name (stageInfo ev))),
                            (''reason'', r)]\<rparr>]\<rparr>, None))"
  by (simp add: onStageCompleted_def add_breadcrumb_def empty_option_signal_def Let_def)

theorem onStageCompleted_breadcrumb_witness:
  "failureReason (stageInfo stage_ok) = Inl empty_option_signal \<and>
   onStageCompleted stage_ok world0 =
     (world0\<lparr>breadcrumbs :=
        [\<lparr>level = ''info'', message = ''Stage 3 Completed'',
          data = Some [(''attemptId'', PInt 0), (''name'', PStr ''collect'')]\<rparr>]\<rparr>, None) \<and>
   failureReason (stageInfo stage_oom) = Inr (PStr ''OOM'') \<and>
   onStageCompleted stage_oom world0 =
     (world0\<lparr>breadcrumbs :=
        [\<lparr>level = ''warning'', message = ''Stage 3 Failed'',
          data = Some [(''attemptId'', PInt 0), (''name'', PStr ''collect''),
                       (''reason'', PStr ''OOM'')]\<rparr>]\<rparr>, None)"
  using onStageCompleted_breadcrumb [where ev = stage_ok and w = world0]
        onStageCompleted_breadcrumb [where ev = stage_oom and w = world0 and r = "PStr ''OOM''"]
  by (simp add: stage_ok_def stage_oom_def str_int_3 world0_def)

text \<open>
  C2, as the claim states it: only the empty-option signal selects the completed
  branch, and any other failure of the read leaves the handler. The handler catches
  the class \<^verbatim>\<open>Py4JJavaError\<close> without looking at the Java exception inside, so an
  unrelated engine-side error (here an \<^verbatim>\<open>IllegalStateException\<close> thrown in the JVM)
  is not the empty-option signal and still gives the "Completed" breadcrumb; nothing
  leaves the handler.
\<close>

theorem onStageCompleted_java_fault_counterexample:
  "failureReason (stageInfo stage_java_fault) = Inl (Py4JJavaError ''java.lang.IllegalStateException'') \<and>
   Py4JJavaError ''java.lang.IllegalStateException'' \<noteq> empty_option_signal \<and>
   onStageCompleted stage_java_fault world0 =
     (world0\<lparr>breadcrumbs :=
        [\<lparr>level = ''info'', message = ''Stage 3 Completed'',
          data = Some [(''attemptId'', PInt 0), (''name'', PStr ''collect'')]\<rparr>]\<rparr>, None) \<and>
   snd (onStageCompleted stage_java_fault world0) \<noteq> Some (Py4JJavaError ''java.lang.IllegalStateException'')"
  by (simp add: stage_java_fault_def onStageCompleted_def add_breadcrumb_def
        empty_option_signal_def str_int_3 world0_def Let_def)

text \<open>
  C2, amended. In \<^verbatim>\<open>onStageCompleted\<close> every \<^verbatim>\<open>Py4JJavaError\<close> raised by the
  failure-reason read (the empty-option signal and any other exception thrown on the
  engine side) selects the completed-without-reason branch. Any failure of another
  class (for instance a transport fault) leaves the handler as it was raised, and no
  breadcrumb is added.
\<close>

theorem onStageCompleted_failure_read:
  "(failureReason (stageInfo ev) = Inl (Py4JJavaError j) \<longrightarrow>
      onStageCompleted ev w =
        (w\<lparr>breadcrumbs := breadcrumbs w @
             [\<lparr>level = ''info'',
               message = ''Stage '' @ str_int (stageId (stageInfo ev)) @ '' Completed'',
               data = Some [(''attemptId'', PInt (attemptId (stageInfo ev))),
                            (''name'', PStr (name (stageInfo ev)))]\<rparr>]\<rparr>, None)) \<and>
   (failureReason (stageInfo ev) = Inl e \<longrightarrow> (\<forall>c. e \<noteq> Py4JJavaError c) \<longrightarrow>
      onStageCompleted ev w = (w, Some e))"
  by (cases e) (simp_all add: onStageCompleted_def add_breadcrumb_def Let_def)

theorem onStageCompleted_failure_read_witness:
  "failureReason (stageInfo stage_java_fault) = Inl (Py4JJavaError ''java.lang.IllegalStateException'') \<and>
   onStageCompleted stage_java_fault world0 =
     (world0\<lparr>breadcrumbs :=
        [\<lparr>level = ''info'', message = ''Stage 3 Completed'',
          data = Some [(''attemptId'', PInt 0), (''name'', PStr ''collect'')]\<rparr>]\<rparr>, None) \<and>
   failureReason (stageInfo stage_transport_fault) = Inl (OtherException ''Py4JNetworkError'') \<and>
   (\<forall>c. OtherException ''Py4JNetworkError'' \<noteq> Py4JJavaError c) \<and>
   onStageCompleted stage_transport_fault world0 =
     (world0, Some (OtherException ''Py4JNetworkError''))"
  using onStageCompleted_failure_read [where ev = stage_java_fault and w = world0
          and j = "''java.lang.IllegalStateException''"]
        onStageCompleted_failure_read [where ev = stage_transport_fault and w = world0
          and e = "OtherException ''Py4JNetworkError''"]
  by (simp add: stage_java_fault_def stage_transport_fault_def str_int_3 world0_def)

section \<open>Sequencing and frame lemmas\<close>

lemma and_then_None: "and_then (s, None) f = f s"
  by (simp add: and_then_def)

lemma and_then_Some: "and_then (s, Some e) f = (s, Some e)"
  by (simp add: and_then_def)

lemma set_app_properties_frame:
  "listeners (fst (set_app_properties w)) = listeners w \<and>
   event_processors (fst (set_app_properties w)) = event_processors w \<and>
   breadcrumbs (fst (set_app_properties w)) = breadcrumbs w"
  by (simp add: set_app_properties_def setLocalProperty_def Let_def split: option.splits sum.splits)

lemma set_app_properties_again:
  "set_app_properties w = (w1, None) \<Longrightarrow> set_app_properties w1 = (w1, None)"
  by (auto simp: set_app_properties_def setLocalProperty_def Let_def update_triv update_conv'
      split: option.splits sum.splits)

lemma start_sentry_listener_ok:
  "start_sentry_listener sc w = (w1, None) \<Longrightarrow>
     listeners w1 = (listeners w)(sc_id sc := listeners w (sc_id sc) @ [SentryListener]) \<and>
     event_processors w1 = event_processors w"
  by (auto simp: start_sentry_listener_def Let_def split: option.splits)

lemma set_app_properties_keeps:
  "set_app_properties w = (w1, r) \<Longrightarrow>
     listeners w1 = listeners w \<and> event_processors w1 = event_processors w"
  using set_app_properties_frame [of w] by simp

lemma activate_integration_ok:
  assumes "activate_integration sc w = (w1, None)"
  shows "listeners w1 = (listeners w)(sc_id sc := listeners w (sc_id sc) @ [SentryListener])"
    and "event_processors w1 = event_processors w @ [sc]"
proof -
  obtain wa ra where a: "start_sentry_listener sc w = (wa, ra)"
    by (cases "start_sentry_listener sc w")
  obtain wb rb where b: "set_app_properties wa = (wb, rb)"
    by (cases "set_app_properties wa")
  from assms a have ra: "ra = None"
    by (cases ra) (simp_all add: activate_integration_def and_then_def)
  from assms a b ra have rb: "rb = None"
    by (cases rb) (simp_all add: activate_integration_def and_then_def)
  from assms a b ra rb have w1: "w1 = wb\<lparr>event_processors := event_processors wb @ [sc]\<rparr>"
    by (simp add: activate_integration_def and_then_def add_event_processor_def)
  from a ra have la: "listeners wa = (listeners w)(sc_id sc := listeners w (sc_id sc) @ [SentryListener])"
    and ea: "event_processors wa = event_processors w"
    using start_sentry_listener_ok [of sc w wa] by simp_all
  from b have lb: "listeners wb = listeners wa" and eb: "event_processors wb = event_processors wa"
    using set_app_properties_keeps [of wa wb rb] by simp_all
  show "listeners w1 = (listeners w)(sc_id sc := listeners w (sc_id sc) @ [SentryListener])"
    by (simp add: w1 lb la)
  show "event_processors w1 = event_processors w @ [sc]"
    by (simp add: w1 eb ea)
qed

lemma post_job_end_fold:
  "length (breadcrumbs (fold (\<lambda>l w'. case l of SentryListener \<Rightarrow> fst (onJobEnd je w')) ls w)) =
     length (breadcrumbs w) + length ls"
  by (induction ls arbitrary: w)
     (simp_all add: onJobEnd_def add_breadcrumb_def Let_def split: listener.splits)

lemma post_job_end_length:
  "length (breadcrumbs (post_job_end sc je w)) =
     length (breadcrumbs w) + length (listeners w (sc_id sc))"
  by (simp add: post_job_end_def post_job_end_fold)

lemma activate_session0_world1:
  "activate_integration session0 world1 = (world_once, None)"
  by (simp add: activate_integration_def and_then_def start_sentry_listener_def
        set_app_properties_def setLocalProperty_def add_event_processor_def
        world_once_def world1_def world0_def session0_def Let_def)

lemma activate_session0_world_once:
  "activate_integration session0 world_once = (world_twice, None)"
  by (simp add: activate_integration_def and_then_def start_sentry_listener_def
        set_app_properties_def setLocalProperty_def add_event_processor_def
        world_twice_def world_once_def world1_def world0_def session0_def Let_def)

lemma activate_unreachable:
  "activate_integration session_unreachable (world0\<lparr>active_spark_context := Some session_unreachable\<rparr>) =
     (world_half, Some (OtherException ''Py4JNetworkError''))"
  by (simp add: activate_integration_def and_then_def start_sentry_listener_def
        world_half_def world1_def world0_def session_unreachable_def session0_def Let_def)

section \<open>What property propagation writes\<close>

text \<open>
  C9. \<^verbatim>\<open>_set_app_properties\<close>: with no active session it writes nothing and returns.
  With an active session whose application name is \<open>n\<close> and whose application id is
  \<open>i\<close> it writes exactly two pairs into that session's local properties,
  \<^verbatim>\<open>sentry_app_name\<close> with \<open>n\<close> and \<^verbatim>\<open>sentry_application_id\<close> with \<open>i\<close>; every
  other key and every other part of the state is as before. Calling it again rewrites
  the same values: two calls in a row leave the state and outcome of one call.
\<close>

theorem set_app_properties_writes:
  "(active_spark_context w = None \<longrightarrow> set_app_properties w = (w, None)) \<and>
   (active_spark_context w = Some sc \<longrightarrow> appName sc = Inr n \<longrightarrow> applicationId sc = Inr i \<longrightarrow>
      set_app_properties w =
        (w\<lparr>local_properties := (local_properties w)(sc_id sc :=
             AList.update ''sentry_application_id'' i
               (AList.update ''sentry_app_name'' n (local_properties w (sc_id sc))))\<rparr>, None) \<and>
      map_of (local_properties (fst (set_app_properties w)) (sc_id sc)) =
        (map_of (local_properties w (sc_id sc)))
          (''sentry_app_name'' \<mapsto> n, ''sentry_application_id'' \<mapsto> i)) \<and>
   and_then (set_app_properties w) set_app_properties = set_app_properties w"
proof (intro conjI impI)
  show "and_then (set_app_properties w) set_app_properties = set_app_properties w"
  proof (cases "set_app_properties w")
    case (Pair w1 r)
    then show ?thesis
      by (cases r) (simp_all add: and_then_def set_app_properties_again)
  qed
qed (simp_all add: set_app_properties_def setLocalProperty_def Let_def update_conv')

theorem set_app_properties_writes_witness:
  "set_app_properties world0 = (world0, None) \<and>
   local_properties (fst (set_app_properties world1)) 1 =
     [(''sentry_app_name'', PStr ''Y''), (''sentry_application_id'', PStr ''app-1'')] \<and>
   snd (set_app_properties world1) = None"
  using set_app_properties_writes [of world0 session0 "PStr ''Y''" "PStr ''app-1''"]
        set_app_properties_writes [of world1 session0 "PStr ''Y''" "PStr ''app-1''"]
  by (simp add: world0_def world1_def session0_def)


section \<open>Activation\<close>

text \<open>
  C1, as the claim states it: two activations for the same session leave exactly one
  listener and exactly one enrichment hook. The activation routine has no guard. For
  a fresh session, activating twice registers two listeners on its bus and installs two
  event processors, and one job-end event then produces two breadcrumbs.
\<close>

theorem activate_twice_counterexample:
  "snd (and_then (activate_integration session0 world1) (activate_integration session0)) = None \<and>
   listeners (fst (and_then (activate_integration session0 world1) (activate_integration session0)))
       (sc_id session0) = [SentryListener, SentryListener] \<and>
   length (event_processors
       (fst (and_then (activate_integration session0 world1) (activate_integration session0)))) = 2 \<and>
   length (breadcrumbs (post_job_end session0 \<lparr>jobId = 7, jobResult = ''JobSucceeded''\<rparr>
       (fst (and_then (activate_integration session0 world1) (activate_integration session0))))) = 2"
  by (simp add: post_job_end_length activate_integration_def and_then_def start_sentry_listener_def
        set_app_properties_def setLocalProperty_def add_event_processor_def
        world1_def world0_def session0_def Let_def)

text \<open>
  C1, amended. For every session, each call of the activation routine that returns
  registers exactly one more lifecycle listener on the session and installs exactly one
  more event-enrichment hook. Nothing guards against repetition: after two calls for
  the same session there are two more listeners and two more hooks, and a single
  job-end event produces two more breadcrumbs than it would have before.
\<close>

theorem activate_integration_each_call:
  assumes "activate_integration sc w = (w1, None)"
      and "activate_integration sc w1 = (w2, None)"
  shows "listeners w1 (sc_id sc) = listeners w (sc_id sc) @ [SentryListener] \<and>
         event_processors w1 = event_processors w @ [sc] \<and>
         listeners w2 (sc_id sc) = listeners w (sc_id sc) @ [SentryListener, SentryListener] \<and>
         event_processors w2 = event_processors w @ [sc, sc] \<and>
         length (breadcrumbs (post_job_end sc je w2)) =
           length (breadcrumbs w2) + length (listeners w (sc_id sc)) + 2"
proof -
  have l1: "listeners w1 (sc_id sc) = listeners w (sc_id sc) @ [SentryListener]"
    by (simp add: activate_integration_ok(1) [OF assms(1)])
  have e1: "event_processors w1 = event_processors w @ [sc]"
    by (rule activate_integration_ok(2) [OF assms(1)])
  have l2: "listeners w2 (sc_id sc) = listeners w (sc_id sc) @ [SentryListener, SentryListener]"
    by (simp add: activate_integration_ok(1) [OF assms(2)] l1)
  have e2: "event_processors w2 = event_processors w @ [sc, sc]"
    by (simp add: activate_integration_ok(2) [OF assms(2)] e1)
  have b2: "length (breadcrumbs (post_job_end sc je w2)) =
          length (breadcrumbs w2) + length (listeners w (sc_id sc)) + 2"
    by (simp add: post_job_end_length l2)
  from l1 e1 l2 e2 b2 show ?thesis by simp
qed

theorem activate_integration_each_call_witness:
  "activate_integration session0 world1 = (world_once, None) \<and>
   activate_integration session0 world_once = (world_twice, None) \<and>
   listeners world_once 1 = [SentryListener] \<and>
   length (event_processors world_once) = 1 \<and>
   listeners world_twice 1 = [SentryListener, SentryListener] \<and>
   length (event_processors world_twice) = 2 \<and>
   length (breadcrumbs (post_job_end session0 \<lparr>jobId = 7, jobResult = ''JobSucceeded''\<rparr> world_twice)) = 2"
  using activate_integration_each_call [OF activate_session0_world1 activate_session0_world_once,
          of "\<lparr>jobId = 7, jobResult = ''JobSucceeded''\<rparr>"]
        activate_session0_world1 activate_session0_world_once
  by (simp add: world1_def world0_def session0_def world_twice_def world_once_def)

section \<open>The patched initialisation\<close>

text \<open>
  C8. The routine stored in \<^verbatim>\<open>SparkContext._do_init\<close> runs the original
  initialisation first. When the original raises, the same exception leaves the
  wrapper and the state is exactly the one the original left: activation has not run
  and has no effect. When the original returns \<open>rv\<close> and the integration is enabled,
  activation runs on the state the original left; if it returns, the wrapper returns
  \<open>rv\<close>; if it raises (for instance while registering the listener), the exception
  leaves the wrapper.
\<close>

theorem patched_do_init_behaviour:
  "(spark_context_init self w = (w1, Inl e) \<longrightarrow>
      patched_do_init spark_context_init self w = (w1, Inl e)) \<and>
   (integration_enabled w \<longrightarrow> spark_context_init self w = (w1, Inr rv) \<longrightarrow>
      activate_integration self w1 = (w2, None) \<longrightarrow>
      patched_do_init spark_context_init self w = (w2, Inr rv)) \<and>
   (integration_enabled w \<longrightarrow> spark_context_init self w = (w1, Inr rv) \<longrightarrow>
      activate_integration self w1 = (w2, Some e) \<longrightarrow>
      patched_do_init spark_context_init self w = (w2, Inl e))"
  by (simp add: patched_do_init_def ensure_integration_enabled_def
        sentry_patched_spark_context_init_def)


theorem patched_do_init_behaviour_witness:
  "init_fails session0 world0 = (world0, Inl (Py4JJavaError ''org.apache.spark.SparkException'')) \<and>
   patched_do_init init_fails session0 world0 =
     (world0, Inl (Py4JJavaError ''org.apache.spark.SparkException'')) \<and>
   integration_enabled world0 \<and>
   init_ok session0 world0 = (world1, Inr PNone) \<and>
   patched_do_init init_ok session0 world0 = (world_once, Inr PNone) \<and>
   patched_do_init init_ok session_unreachable world0 =
     (world_half, Inl (OtherException ''Py4JNetworkError''))"
proof -
  have f: "init_fails session0 world0 = (world0, Inl (Py4JJavaError ''org.apache.spark.SparkException''))"
    by (simp add: init_fails_def)
  have en: "integration_enabled world0"
    by (simp add: world0_def)
  have ok: "init_ok session0 world0 = (world1, Inr PNone)"
    by (simp add: init_ok_def world1_def)
  have ok': "init_ok session_unreachable world0 =
      (world0\<lparr>active_spark_context := Some session_unreachable\<rparr>, Inr PNone)"
    by (simp add: init_ok_def)
  from patched_do_init_behaviour [where spark_context_init = init_fails and self = session0
         and w = world0 and ?w1.0 = world0
         and e = "Py4JJavaError ''org.apache.spark.SparkException''"] f
  have a: "patched_do_init init_fails session0 world0 =
      (world0, Inl (Py4JJavaError ''org.apache.spark.SparkException''))"
    by simp
  from patched_do_init_behaviour [where spark_context_init = init_ok and self = session0
         and w = world0 and ?w1.0 = world1 and rv = PNone and ?w2.0 = world_once]
       en ok activate_session0_world1
  have b: "patched_do_init init_ok session0 world0 = (world_once, Inr PNone)"
    by simp
  from patched_do_init_behaviour [where spark_context_init = init_ok and self = session_unreachable
         and w = world0 and ?w1.0 = "world0\<lparr>active_spark_context := Some session_unreachable\<rparr>"
         and rv = PNone and ?w2.0 = world_half and e = "OtherException ''Py4JNetworkError''"]
       en ok' activate_unreachable
  have c: "patched_do_init init_ok session_unreachable world0 =
      (world_half, Inl (OtherException ''Py4JNetworkError''))"
    by simp
  from f a en ok b c show ?thesis by simp
qed

section \<open>Lemmas on the event processor\<close>

lemma map_of_dict_setdefault:
  "map_of (dict_setdefault k v d) k' =
     (if k' = k then (case map_of d k of Some x \<Rightarrow> Some x | None \<Rightarrow> Some v) else map_of d k')"
  by (simp add: dict_setdefault_def map_add_def split: option.splits)

lemma lookup2_keeps_setdefault_section:
  "lookup2 ev s k = Some x \<Longrightarrow> lookup2 (fst (setdefault_section s0 k0 rd ev)) s k = Some x"
  by (auto simp: lookup2_def setdefault_section_def Let_def map_of_dict_setdefault update_conv'
      split: option.splits pyval.splits sum.splits if_splits)

lemma lookup2_keeps_index_setdefault:
  "lookup2 ev s k = Some x \<Longrightarrow> lookup2 (fst (index_setdefault s0 k0 rd ev)) s k = Some x"
  by (auto simp: lookup2_def index_setdefault_def Let_def map_of_dict_setdefault update_conv'
      split: option.splits pyval.splits sum.splits if_splits)

lemma lookup2_other_setdefault_section:
  "(s, k) \<noteq> (s0, k0) \<Longrightarrow> lookup2 (fst (setdefault_section s0 k0 rd ev)) s k = lookup2 ev s k"
  by (auto simp: lookup2_def setdefault_section_def Let_def map_of_dict_setdefault update_conv'
      split: option.splits pyval.splits sum.splits if_splits)

lemma lookup2_other_index_setdefault:
  "(s, k) \<noteq> (s0, k0) \<Longrightarrow> lookup2 (fst (index_setdefault s0 k0 rd ev)) s k = lookup2 ev s k"
  by (auto simp: lookup2_def index_setdefault_def Let_def map_of_dict_setdefault update_conv'
      split: option.splits pyval.splits sum.splits if_splits)

lemma setdefault_section_ok_value:
  "setdefault_section s0 k0 (Inr v) ev = (ev', None) \<Longrightarrow>
     lookup2 ev' s0 k0 = Some (case lookup2 ev s0 k0 of Some old \<Rightarrow> old | None \<Rightarrow> v)"
  by (auto simp: lookup2_def setdefault_section_def Let_def map_of_dict_setdefault update_conv'
      split: option.splits pyval.splits if_splits)

lemma index_setdefault_ok_value:
  "index_setdefault s0 k0 (Inr v) ev = (ev', None) \<Longrightarrow>
     lookup2 ev' s0 k0 = Some (case lookup2 ev s0 k0 of Some old \<Rightarrow> old | None \<Rightarrow> v)"
  by (auto simp: lookup2_def index_setdefault_def Let_def map_of_dict_setdefault update_conv'
      split: option.splits pyval.splits if_splits)


lemma run_step_fun:
  "run_step (first, sec, k, rd) =
     (if first then setdefault_section sec k rd else index_setdefault sec k rd)"
  by (rule ext) simp

lemma process_event_body_steps:
  "integration_enabled w \<Longrightarrow> active_spark_context w \<noteq> None \<Longrightarrow>
     process_event_body w sc event = run_steps (enrichment_steps sc) event"
  by (cases "active_spark_context w")
     (simp_all add: process_event_body_def run_steps_def enrichment_steps_def run_step_fun
        and_then_None del: run_step.simps)

lemma process_event_body_off:
  "\<not> integration_enabled w \<or> active_spark_context w = None \<Longrightarrow>
     process_event_body w sc event = (event, None)"
  by (auto simp: process_event_body_def)

lemma process_event_result:
  "process_event w sc event = Inr (Some (fst (process_event_body w sc event)))"
  by (simp add: process_event_def capture_internal_exceptions_def)

lemma run_steps_Nil: "run_steps [] event = (event, None)"
  by (simp add: run_steps_def)

lemma run_steps_snoc: "run_steps (xs @ [st]) event = and_then (run_steps xs event) (run_step st)"
  by (simp add: run_steps_def)

lemma foldl_failed:
  "foldl (\<lambda>r st. and_then r (run_step st)) (s, Some e) xs = (s, Some e)"
  by (induction xs) (simp_all add: and_then_Some)

lemma run_steps_failed_step:
  assumes "run_steps pre event = (event1, None)"
      and "run_step st event1 = (event2, Some e)"
  shows "run_steps (pre @ st # post) event = (event2, Some e)"
  using assms by (simp add: run_steps_def and_then_None foldl_failed)

lemma run_step_keeps:
  "lookup2 ev s k = Some x \<Longrightarrow> lookup2 (fst (run_step st ev)) s k = Some x"
  by (cases st) (simp add: lookup2_keeps_setdefault_section lookup2_keeps_index_setdefault)

lemma run_step_other:
  "(s, k) \<noteq> step_field st \<Longrightarrow> lookup2 (fst (run_step st ev)) s k = lookup2 ev s k"
  by (cases st)
     (simp add: step_field_def lookup2_other_setdefault_section lookup2_other_index_setdefault)

lemma run_step_ok_value:
  "run_step (first, sec, k, Inr v) ev = (ev', None) \<Longrightarrow>
     lookup2 ev' sec k = Some (case lookup2 ev sec k of Some old \<Rightarrow> old | None \<Rightarrow> v)"
  by (auto dest: setdefault_section_ok_value index_setdefault_ok_value split: if_splits)

lemma fst_and_then:
  "fst (and_then r f) = (case snd r of None \<Rightarrow> fst (f (fst r)) | Some e \<Rightarrow> fst r)"
  by (cases r) (simp add: and_then_def split: option.splits)

lemma and_then_ok:
  "and_then r f = (s', None) \<Longrightarrow> \<exists>s. r = (s, None) \<and> f s = (s', None)"
  by (cases r) (auto simp: and_then_def split: option.splits)

lemma run_steps_keeps:
  "lookup2 ev s k = Some x \<Longrightarrow> lookup2 (fst (run_steps xs ev)) s k = Some x"
proof (induction xs rule: rev_induct)
  case Nil
  then show ?case by (simp add: run_steps_Nil)
next
  case (snoc st xs)
  then show ?case
    by (simp add: run_steps_snoc fst_and_then run_step_keeps split: option.splits)
qed

lemma run_steps_other:
  "(s, k) \<notin> step_field ` set xs \<Longrightarrow> lookup2 (fst (run_steps xs ev)) s k = lookup2 ev s k"
proof (induction xs rule: rev_induct)
  case Nil
  then show ?case by (simp add: run_steps_Nil)
next
  case (snoc st xs)
  then show ?case
    by (simp add: run_steps_snoc fst_and_then run_step_other split: option.splits)
qed

lemma run_steps_value:
  assumes "distinct (map step_field xs)"
      and "run_steps xs ev = (ev1, None)"
      and "(first, sec, k, Inr v) \<in> set xs"
  shows "lookup2 ev1 sec k = Some (case lookup2 ev sec k of Some old \<Rightarrow> old | None \<Rightarrow> v)"
  using assms
proof (induction xs arbitrary: ev1 rule: rev_induct)
  case Nil
  then show ?case by simp
next
  case (snoc st xs)
  from snoc.prems(2) obtain evm where
    pre: "run_steps xs ev = (evm, None)" and last: "run_step st evm = (ev1, None)"
    by (auto simp: run_steps_snoc dest: and_then_ok)
  from snoc.prems(1) have dist: "distinct (map step_field xs)"
    and fresh: "step_field st \<notin> step_field ` set xs"
    by simp_all
  show ?case
  proof (cases "(first, sec, k, Inr v) \<in> set xs")
    case True
    from snoc.IH [OF dist pre True]
    have "lookup2 evm sec k = Some (case lookup2 ev sec k of Some old \<Rightarrow> old | None \<Rightarrow> v)" .
    from run_step_keeps [OF this, of st] last show ?thesis by simp
  next
    case False
    with snoc.prems(3) have st: "st = (first, sec, k, Inr v)" by simp
    with fresh have "(sec, k) \<notin> step_field ` set xs"
      by (simp add: step_field_def)
    from run_steps_other [OF this, of ev] pre have same: "lookup2 evm sec k = lookup2 ev sec k"
      by simp
    from last have "run_step (first, sec, k, Inr v) evm = (ev1, None)"
      unfolding st .
    from run_step_ok_value [OF this] same show ?thesis by simp
  qed
qed

lemma enrichment_steps_distinct: "distinct (map step_field (enrichment_steps sc))"
  by (simp add: enrichment_steps_def step_field_def)

lemma keys_dict_setdefault: "fst ` set d \<subseteq> fst ` set (dict_setdefault k v d)"
  by (auto simp: dict_setdefault_def split: option.splits)

lemma keys_setdefault_section: "fst ` set ev \<subseteq> fst ` set (fst (setdefault_section s k rd ev))"
  using keys_dict_setdefault [of ev s "PDict []"]
  by (auto simp: setdefault_section_def Let_def dom_update
      split: option.splits pyval.splits sum.splits)

lemma keys_index_setdefault: "fst ` set ev \<subseteq> fst ` set (fst (index_setdefault s k rd ev))"
  by (auto simp: index_setdefault_def dom_update split: option.splits pyval.splits sum.splits)

lemma keys_run_step: "fst ` set ev \<subseteq> fst ` set (fst (run_step st ev))"
  by (cases st) (simp add: keys_setdefault_section keys_index_setdefault)

lemma keys_run_steps: "fst ` set ev \<subseteq> fst ` set (fst (run_steps xs ev))"
proof (induction xs rule: rev_induct)
  case Nil
  then show ?case by (simp add: run_steps_Nil)
next
  case (snoc st xs)
  show ?case
  proof (cases "snd (run_steps xs ev)")
    case None
    with snoc keys_run_step [of "fst (run_steps xs ev)" st] show ?thesis
      by (simp add: run_steps_snoc fst_and_then)
  next
    case (Some e)
    with snoc show ?thesis
      by (simp add: run_steps_snoc fst_and_then)
  qed
qed

lemma run_step_read_fails:
  "fst (run_step (first, sec, k, Inl e) ev) =
     (if first then dict_setdefault sec (PDict []) ev else ev) \<and>
   snd (run_step (first, sec, k, Inl e) ev) \<noteq> None"
  by (auto simp: setdefault_section_def index_setdefault_def Let_def
      split: option.splits pyval.splits)

lemma process_event_session0_event_x:
  "process_event_body world1 session0 event_x = (event_enriched, None)"
  by (simp add: process_event_body_def and_then_def setdefault_section_def index_setdefault_def
        dict_setdefault_def world1_def world0_def session0_def event_x_def event_enriched_def Let_def)

lemma enrichment_steps_session_torn:
  "enrichment_steps session_torn =
     [(True, ''user'', ''id'', Inr (PStr ''alice'')),
      (True, ''tags'', ''executor.id'', Inr PNone),
      (False, ''tags'', ''spark-submit.deployMode'', Inr PNone),
      (False, ''tags'', ''driver.host'', Inr PNone),
      (False, ''tags'', ''driver.port'', Inr PNone)] @
     (False, ''tags'', ''spark_version'', Inl (Py4JJavaError ''java.lang.IllegalStateException'')) #
     [(False, ''tags'', ''app_name'', Inr (PStr ''Y'')),
      (False, ''tags'', ''application_id'', Inr (PStr ''app-1'')),
      (False, ''tags'', ''master'', Inr (PStr ''local'')),
      (False, ''tags'', ''spark_home'', Inr PNone),
      (True, ''extra'', ''web_url'', Inr (PStr ''http://driver:4040''))]"
  by (simp add: enrichment_steps_def session_torn_def session0_def)

lemma run_steps_session_torn:
  "run_steps
     [(True, ''user'', ''id'', Inr (PStr ''alice'')),
      (True, ''tags'', ''executor.id'', Inr PNone),
      (False, ''tags'', ''spark-submit.deployMode'', Inr PNone),
      (False, ''tags'', ''driver.host'', Inr PNone),
      (False, ''tags'', ''driver.port'', Inr PNone)] event_x = (event_partial, None)"
  by (simp add: run_steps_def and_then_def setdefault_section_def index_setdefault_def
        dict_setdefault_def event_x_def event_partial_def Let_def)

section \<open>What the event processor returns\<close>

text \<open>
  C6. For every report, if the Spark integration is not enabled in the current client
  or no Spark session is active, the event processor returns the report unchanged (the
  very same dictionary: nothing added, removed or modified), and nothing is raised,
  not even inside the guarded block.
\<close>

theorem process_event_disabled_or_inactive:
  assumes "\<not> integration_enabled w \<or> active_spark_context w = None"
  shows "process_event w sc event = Inr (Some event) \<and>
         process_event_body w sc event = (event, None)"
  using assms by (simp add: process_event_result process_event_body_off)

theorem process_event_disabled_or_inactive_witness:
  "\<not> integration_enabled world_disabled \<and>
   process_event world_disabled session0 event_x = Inr (Some event_x) \<and>
   active_spark_context world0 = None \<and>
   process_event world0 session0 event_x = Inr (Some event_x)"
  using process_event_disabled_or_inactive [of world_disabled session0 event_x]
        process_event_disabled_or_inactive [of world0 session0 event_x]
  by (simp add: world_disabled_def world0_def world1_def)

text \<open>
  C5. For every report and every field \<^verbatim>\<open>event[sec][k]\<close>, so in particular for
  \<^verbatim>\<open>user.id\<close>, each of the nine tags and \<^verbatim>\<open>extra.web_url\<close>: if the report carries
  a value for the field before the event processor runs, the processor returns the
  report with the same value in that field, whatever the state, the session and the
  outcome of its reads. A tag \<^verbatim>\<open>app_name = "X"\<close> survives a session named "Y".
\<close>

theorem process_event_keeps_existing:
  assumes "lookup2 event sec k = Some v"
  shows "\<exists>event'. process_event w sc event = Inr (Some event') \<and> lookup2 event' sec k = Some v"
proof (cases "integration_enabled w \<and> active_spark_context w \<noteq> None")
  case True
  then have "process_event_body w sc event = run_steps (enrichment_steps sc) event"
    by (simp add: process_event_body_steps)
  with run_steps_keeps [OF assms, of "enrichment_steps sc"] show ?thesis
    by (simp add: process_event_result)
next
  case False
  then have "process_event_body w sc event = (event, None)"
    by (intro process_event_body_off) blast
  with assms show ?thesis
    by (simp add: process_event_result)
qed

theorem process_event_keeps_existing_witness:
  "appName session0 = Inr (PStr ''Y'') \<and>
   active_spark_context world1 = Some session0 \<and>
   lookup2 event_x ''tags'' ''app_name'' = Some (PStr ''X'') \<and>
   (\<exists>event'. process_event world1 session0 event_x = Inr (Some event') \<and>
      lookup2 event' ''tags'' ''app_name'' = Some (PStr ''X''))"
proof -
  have h: "lookup2 event_x ''tags'' ''app_name'' = Some (PStr ''X'')"
    by (simp add: lookup2_def event_x_def)
  from process_event_keeps_existing [OF h, of world1 session0] h show ?thesis
    by (simp add: session0_def world1_def)
qed

text \<open>
  C10. For every report (the hint is not read), the event processor returns the
  report: the result is never \<^verbatim>\<open>None\<close> and never an exception, it is the state the
  event dictionary had when the guarded block was left, and every key of the incoming
  report is still a key of it. This holds with the integration disabled, with no
  active session, and when an exception was caught inside the block.
\<close>

theorem process_event_returns_event:
  "process_event w sc event = Inr (Some (fst (process_event_body w sc event))) \<and>
   process_event w sc event \<noteq> Inr None \<and>
   (\<forall>e. process_event w sc event \<noteq> Inl e) \<and>
   fst ` set event \<subseteq> fst ` set (fst (process_event_body w sc event))"
proof -
  have "fst ` set event \<subseteq> fst ` set (fst (process_event_body w sc event))"
  proof (cases "integration_enabled w \<and> active_spark_context w \<noteq> None")
    case True
    then show ?thesis
      by (simp add: process_event_body_steps keys_run_steps)
  next
    case False
    then have "process_event_body w sc event = (event, None)"
      by (intro process_event_body_off) blast
    then show ?thesis by simp
  qed
  then show ?thesis
    by (simp add: process_event_result)
qed


theorem process_event_returns_event_witness:
  "process_event world1 session0 event_x = Inr (Some event_enriched) \<and>
   process_event world1 session_torn event_x \<noteq> Inr None \<and>
   process_event world_disabled session0 event_x \<noteq> Inr None"
  using process_event_returns_event [of world1 session0 event_x]
        process_event_returns_event [of world1 session_torn event_x]
        process_event_returns_event [of world_disabled session0 event_x]
  by (simp add: process_event_session0_event_x)


text \<open>
  C7. If a read of a session attribute raises during enrichment, the event processor
  contains the failure and returns the report in the state it had reached: with
  \<open>pre\<close> the statements before the failing one and \<open>event1\<close> the event after them,
  the result is \<open>event1\<close> (with the empty section the failing statement created, when it
  is of the \<^verbatim>\<open>setdefault\<close> form), an exception was raised inside the block and did
  not leave the function, and every field enriched by a statement of \<open>pre\<close> holds the
  value it was given (its old value when it had one, the session's otherwise).
\<close>

theorem process_event_contains_failure:
  assumes "integration_enabled w" and "active_spark_context w \<noteq> None"
      and "enrichment_steps sc = pre @ (first, sec, k, Inl e) # post"
      and "run_steps pre event = (event1, None)"
  shows "process_event w sc event =
           Inr (Some (if first then dict_setdefault sec (PDict []) event1 else event1)) \<and>
         snd (process_event_body w sc event) \<noteq> None \<and>
         (\<forall>first' sec' k' v. (first', sec', k', Inr v) \<in> set pre \<longrightarrow>
            lookup2 (if first then dict_setdefault sec (PDict []) event1 else event1) sec' k' =
              Some (case lookup2 event sec' k' of Some old \<Rightarrow> old | None \<Rightarrow> v))"
proof -
  let ?failing = "(first, sec, k, Inl e) :: enrich_step"
  let ?result = "if first then dict_setdefault sec (PDict []) event1 else event1"
  obtain e' where failing: "run_step ?failing event1 = (?result, Some e')"
    using run_step_read_fails [of first sec k e event1]
    by (cases "run_step ?failing event1") auto
  have body: "process_event_body w sc event = (?result, Some e')"
    using assms(1,2) run_steps_failed_step [OF assms(4) failing, of post]
    by (simp add: process_event_body_steps assms(3))
  have dist: "distinct (map step_field pre)"
    using enrichment_steps_distinct [of sc] by (simp add: assms(3))
  have kept: "lookup2 ?result sec' k' =
        Some (case lookup2 event sec' k' of Some old \<Rightarrow> old | None \<Rightarrow> v)"
    if "(first', sec', k', Inr v) \<in> set pre" for first' sec' k' v
  proof -
    from run_steps_value [OF dist assms(4) that]
    have "lookup2 event1 sec' k' =
        Some (case lookup2 event sec' k' of Some old \<Rightarrow> old | None \<Rightarrow> v)" .
    from run_step_keeps [OF this, of ?failing] failing show ?thesis by simp
  qed
  from body kept show ?thesis
    by (simp add: process_event_result)
qed

theorem process_event_contains_failure_witness:
  "integration_enabled world1 \<and> active_spark_context world1 \<noteq> None \<and>
   version session_torn = Inl (Py4JJavaError ''java.lang.IllegalStateException'') \<and>
   process_event world1 session_torn event_x = Inr (Some event_partial) \<and>
   lookup2 event_x ''user'' ''id'' = None \<and>
   lookup2 event_partial ''user'' ''id'' = Some (PStr ''alice'') \<and>
   lookup2 event_partial ''tags'' ''app_name'' = Some (PStr ''X'') \<and>
   lookup2 event_partial ''tags'' ''spark_version'' = None"
proof -
  have en: "integration_enabled world1" and act: "active_spark_context world1 \<noteq> None"
    by (simp_all add: world1_def world0_def)
  from process_event_contains_failure
         [OF en act enrichment_steps_session_torn run_steps_session_torn]
  have "process_event world1 session_torn event_x = Inr (Some event_partial)"
    and "lookup2 event_partial ''user'' ''id'' =
           Some (case lookup2 event_x ''user'' ''id'' of Some old \<Rightarrow> old | None \<Rightarrow> PStr ''alice'')"
    by simp_all
  moreover have "lookup2 event_x ''user'' ''id'' = None"
    by (simp add: lookup2_def event_x_def)
  ultimately show ?thesis using en act
    by (simp add: session_torn_def session0_def lookup2_def event_partial_def)
qed


end
